theory Spec2Isabelle
  imports Main
begin

section \<open>The translation action controller of \<open>ActionTranslate.tsx\<close>\<close>

text \<open>
  The component \<open>ActionTranslate\<close> is a React function component. Its controller logic is
  embedded as follows.
  \<^item> The cells made by \<open>useState\<close> and \<open>useRef\<close> are the fields of the record
    \<open>controller\<close>, together with the table \<open>db.settings\<close> and the list of calls made to the
    collaborators the file imports (\<open>trace\<close>).
  \<^item> The props and the values of the hooks \<open>useSettings\<close>, \<open>useTranslate\<close> and
    \<open>useTopicMessages\<close> at one render, and the imported functions and constants whose
    declarations are outside this file, are the fields of the record \<open>render_env\<close>.
  \<^item> A callback of the component closes over the state variables of the render that
    made it and reads the \<open>useRef\<close> cells live. So a callback is a function of the
    environment, of the rendered state \<open>r\<close> (read for state variables) and of the current
    state \<open>s\<close> (read for refs, written by setters and ref assignments).
  \<^item> \<open>initialize\<close> suspends at \<open>await updateTargetLanguage()\<close>, which itself suspends at
    \<open>await db.settings.get\<close>. The part of a call before the suspension and the part after
    it are two functions, so that calls can overlap; \<open>initialize\<close> is a call that nothing
    interleaves with.
\<close>

subsection \<open>Data\<close>

text \<open>\<open>TranslateLanguage\<close>: the fields this file reads (\<open>langCode\<close>) and the name of the
  language; the display fields are left out.\<close>

record TranslateLanguage =
  langValue :: string
  langCode :: string

text \<open>\<open>Assistant\<close> and \<open>Topic\<close>: the fields this file reads.\<close>

record Assistant =
  assistant_id :: string
  content :: string

record Topic =
  topic_id :: string
  assistantId :: string

text \<open>The six members of \<open>AssistantMessageStatus\<close> that the switch of the status effect
  names; \<open>OTHER v\<close> is any other run-time value of the field, which the \<open>default\<close> branch
  receives.\<close>

datatype AssistantMessageStatus =
  PROCESSING | PENDING | SEARCHING | SUCCESS | PAUSED | ERROR | OTHER string

record Message =
  message_id :: string
  role :: string
  message_status :: AssistantMessageStatus

datatype ControllerStatus = preparing | streaming | finished

datatype log_level = Silly | Debug | Warn | Error

text \<open>The calls that leave the component: the logger, the settings table, the assistant
  service, the completion service, the trace service and the \<open>scrollToBottom\<close> prop.\<close>

datatype event =
    Logger log_level string
  | DbSettingsGet string
  | DbSettingsPut string string
  | GetDefaultTranslateAssistant TranslateLanguage string
  | GetDefaultTopic string
  | ProcessMessages Assistant Topic string
  | AbortCompletion string
  | PauseTrace string
  | ScrollToBottom

text \<open>One render's props and hook values. \<open>selectedText = None\<close> is \<open>undefined\<close>;
  \<open>scrollToBottom\<close> tells whether the prop is defined (it is called as
  \<open>scrollToBottom?.()\<close>). \<open>UNKNOWN\<close>, \<open>LanguagesEnum_zhCN\<close>, \<open>getLanguageByLangcode\<close>,
  \<open>getDefaultTranslateAssistant\<close> and \<open>getDefaultTopic\<close> are declared outside this file and
  are taken as parameters. \<open>topicMessages\<close> is the message store read by
  \<open>useTopicMessages\<close>.\<close>

record render_env =
  selectedText :: "string option"
  scrollToBottom :: bool
  language :: string
  getLanguageByLangcode :: "string \<Rightarrow> TranslateLanguage"
  isLanguagesLoaded :: bool
  UNKNOWN :: TranslateLanguage
  LanguagesEnum_zhCN :: TranslateLanguage
  getDefaultTranslateAssistant :: "TranslateLanguage \<Rightarrow> string \<Rightarrow> Assistant"
  getDefaultTopic :: "string \<Rightarrow> Topic"
  topicMessages :: "string \<Rightarrow> Message list"

record controller =
  targetLanguage :: TranslateLanguage
  error :: string
  showOriginal :: bool
  status :: ControllerStatus
  contentToCopy :: string
  initialized :: bool
  assistantRef :: "Assistant option"
  topicRef :: "Topic option"
  askId :: string
  targetLangRef :: TranslateLanguage
  db_settings :: "string \<rightharpoonup> string"
  trace :: "event list"

definition emit :: "event \<Rightarrow> controller \<Rightarrow> controller" where
  "emit e s = s\<lparr>trace := trace s @ [e]\<rparr>"

subsection \<open>The initial state\<close>

text \<open>The initialiser of \<open>useState<TranslateLanguage>\<close> (lines 38-46): the language and
  the log lines it writes.\<close>

definition initialTargetLanguage :: "render_env \<Rightarrow> TranslateLanguage \<times> event list" where
  "initialTargetLanguage env =
     (let lang = getLanguageByLangcode env (language env)
      in if lang \<noteq> UNKNOWN env then (lang, [])
         else (LanguagesEnum_zhCN env,
               [Logger Warn ''[initialize targetLanguage] Unexpected UNKNOWN. Fallback to zh-CN'']))"

text \<open>The state after the first evaluation of the component body (lines 38-58); \<open>db\<close> is
  the content of the settings table at that time.\<close>

definition initialController :: "render_env \<Rightarrow> (string \<rightharpoonup> string) \<Rightarrow> controller" where
  "initialController env db =
     \<lparr>targetLanguage = fst (initialTargetLanguage env),
      error = [],
      showOriginal = False,
      status = preparing,
      contentToCopy = [],
      initialized = False,
      assistantRef = None,
      topicRef = None,
      askId = [],
      targetLangRef = fst (initialTargetLanguage env),
      db_settings = db,
      trace = snd (initialTargetLanguage env)\<rparr>"

subsection \<open>Initialisation\<close>

text \<open>\<open>updateTargetLanguage\<close> (lines 62-77). \<open>savedTargetLang && savedTargetLang.value\<close>
  holds when the record exists and its value is not the empty string.\<close>

definition updateTargetLanguage :: "render_env \<Rightarrow> controller \<Rightarrow> controller" where
  "updateTargetLanguage env s =
     (if \<not> isLanguagesLoaded env
      then emit (Logger Silly ''[updateTargetLanguage] Languages are not loaded. Skip.'') s
      else
        let s1 = emit (DbSettingsGet ''translate:target:language'') s
        in case db_settings s1 ''translate:target:language'' of
             None \<Rightarrow> s1
           | Some v \<Rightarrow>
               if v = [] then s1
               else
                 let targetLang = getLanguageByLangcode env v
                 in s1\<lparr>targetLanguage := targetLang, targetLangRef := targetLang\<rparr>)"

text \<open>\<open>initialize\<close> (lines 80-112). \<open>initialized\<close> is read from the closure \<open>r\<close>,
  \<open>targetLangRef.current\<close> from the current state.\<close>

definition initialize :: "render_env \<Rightarrow> controller \<Rightarrow> controller \<Rightarrow> controller" where
  "initialize env r s =
     (if initialized r then emit (Logger Silly ''[initialize] Already initialized.'') s
      else if \<not> isLanguagesLoaded env
      then emit (Logger Silly ''[initialize] Languages not loaded. Skip initialization.'') s
      else case selectedText env of
        None \<Rightarrow> emit (Logger Error ''[initialize] No selected text.'') s
      | Some txt \<Rightarrow>
          let s1 = emit (Logger Silly ''[initialize] Start initialization.'') s;
              s2 = updateTargetLanguage env s1;
              s3 = emit (Logger Silly ''[initialize] updateTargetLanguage completed.'') s2;
              currentAssistant = getDefaultTranslateAssistant env (targetLangRef s3) txt;
              s4 = emit (GetDefaultTranslateAssistant (targetLangRef s3) txt) s3;
              s5 = s4\<lparr>assistantRef := Some currentAssistant\<rparr>;
              s6 = emit (GetDefaultTopic (assistant_id currentAssistant)) s5;
              s7 = s6\<lparr>topicRef := Some (getDefaultTopic env (assistant_id currentAssistant))\<rparr>
          in s7\<lparr>initialized := True\<rparr>)"

text \<open>The two parts of \<open>updateTargetLanguage\<close> around \<open>await db.settings.get\<close> (line 70):
  the first tells whether the read was issued, the second receives the record read
  (\<open>None\<close> when there is none).\<close>

definition updateTargetLanguage_start :: "render_env \<Rightarrow> controller \<Rightarrow> controller \<times> bool" where
  "updateTargetLanguage_start env s =
     (if \<not> isLanguagesLoaded env
      then (emit (Logger Silly ''[updateTargetLanguage] Languages are not loaded. Skip.'') s, False)
      else (emit (DbSettingsGet ''translate:target:language'') s, True))"

definition updateTargetLanguage_resume ::
  "render_env \<Rightarrow> string option \<Rightarrow> controller \<Rightarrow> controller" where
  "updateTargetLanguage_resume env savedTargetLang s =
     (case savedTargetLang of
        None \<Rightarrow> s
      | Some v \<Rightarrow>
          if v = [] then s
          else
            let targetLang = getLanguageByLangcode env v
            in s\<lparr>targetLanguage := targetLang, targetLangRef := targetLang\<rparr>)"

text \<open>The two parts of \<open>initialize\<close> around \<open>await updateTargetLanguage()\<close> (line 101).
  The first part returns \<open>None\<close> when a guard returned, and otherwise what the continuation
  keeps: whether the read of the settings table was issued, and the selected text of the
  closure. The continuation reads \<open>targetLangRef.current\<close> when it runs.\<close>

definition initialize_start ::
  "render_env \<Rightarrow> controller \<Rightarrow> controller \<Rightarrow> controller \<times> (bool \<times> string) option" where
  "initialize_start env r s =
     (if initialized r then (emit (Logger Silly ''[initialize] Already initialized.'') s, None)
      else if \<not> isLanguagesLoaded env
      then (emit (Logger Silly ''[initialize] Languages not loaded. Skip initialization.'') s, None)
      else case selectedText env of
        None \<Rightarrow> (emit (Logger Error ''[initialize] No selected text.'') s, None)
      | Some txt \<Rightarrow>
          let s1 = emit (Logger Silly ''[initialize] Start initialization.'') s;
              (s2, reading) = updateTargetLanguage_start env s1
          in (s2, Some (reading, txt)))"

definition initialize_resume ::
  "render_env \<Rightarrow> bool \<times> string \<Rightarrow> string option \<Rightarrow> controller \<Rightarrow> controller" where
  "initialize_resume env k savedTargetLang s =
     (let s2 = (if fst k then updateTargetLanguage_resume env savedTargetLang s else s);
          s3 = emit (Logger Silly ''[initialize] updateTargetLanguage completed.'') s2;
          currentAssistant = getDefaultTranslateAssistant env (targetLangRef s3) (snd k);
          s4 = emit (GetDefaultTranslateAssistant (targetLangRef s3) (snd k)) s3;
          s5 = s4\<lparr>assistantRef := Some currentAssistant\<rparr>;
          s6 = emit (GetDefaultTopic (assistant_id currentAssistant)) s5;
          s7 = s6\<lparr>topicRef := Some (getDefaultTopic env (assistant_id currentAssistant))\<rparr>
      in s7\<lparr>initialized := True\<rparr>)"

subsection \<open>Fetching\<close>

text \<open>The callbacks that \<open>fetchResult\<close> hands to \<open>processMessages\<close> (lines 125-139).\<close>

definition setAskId :: "string \<Rightarrow> controller \<Rightarrow> controller" where
  "setAskId i s = s\<lparr>askId := i\<rparr>"

definition onStream :: "render_env \<Rightarrow> controller \<Rightarrow> controller" where
  "onStream env s =
     (let s1 = s\<lparr>status := streaming\<rparr>
      in if scrollToBottom env then emit ScrollToBottom s1 else s1)"

definition onFinish :: "string \<Rightarrow> controller \<Rightarrow> controller" where
  "onFinish c s = s\<lparr>status := finished, contentToCopy := c\<rparr>"

definition onError :: "string \<Rightarrow> controller \<Rightarrow> controller" where
  "onError m s = s\<lparr>status := finished, error := m\<rparr>"

text \<open>\<open>fetchResult\<close> (lines 122-145). The refs are read from the current state;
  \<open>initialized\<close> and \<open>targetLanguage\<close> from the closure \<open>r\<close>. \<open>!action.selectedText\<close> holds
  for \<open>undefined\<close> and for the empty string.\<close>

definition fetchResult :: "render_env \<Rightarrow> controller \<Rightarrow> controller \<Rightarrow> controller" where
  "fetchResult env r s =
     (case (assistantRef s, topicRef s, selectedText env) of
        (Some a, Some t, Some txt) \<Rightarrow>
          if txt = [] \<or> \<not> initialized r then s
          else
            let assistant = getDefaultTranslateAssistant env (targetLanguage r) txt;
                s1 = emit (GetDefaultTranslateAssistant (targetLanguage r) txt) s;
                s2 = s1\<lparr>assistantRef := Some assistant\<rparr>;
                s3 = emit (Logger Debug ''process once'') s2
            in emit (ProcessMessages assistant t (content assistant)) s3
      | _ \<Rightarrow> s)"

subsection \<open>Status synchronisation\<close>

text \<open>\<open>allMessages\<close> (line 151): the messages of the topic whose id is
  \<open>topicRef.current?.id || ''\<close> at the render.\<close>

definition allMessages :: "render_env \<Rightarrow> controller \<Rightarrow> Message list" where
  "allMessages env r =
     topicMessages env (case topicRef r of None \<Rightarrow> [] | Some t \<Rightarrow> topic_id t)"

text \<open>\<open>currentAssistantMessage\<close> (lines 153-159).\<close>

definition currentAssistantMessage :: "Message list \<Rightarrow> Message option" where
  "currentAssistantMessage msgs =
     (let assistantMessages = filter (\<lambda>message. role message = ''assistant'') msgs
      in if length assistantMessages = 0 then None
         else Some (assistantMessages ! (length assistantMessages - 1)))"

text \<open>The status effect (lines 161-179), on the messages of the render.\<close>

definition syncStatus :: "Message list \<Rightarrow> controller \<Rightarrow> controller" where
  "syncStatus msgs s =
     (case currentAssistantMessage msgs of
        None \<Rightarrow> s
      | Some m \<Rightarrow>
          (case message_status m of
             PROCESSING \<Rightarrow> s\<lparr>status := streaming\<rparr>
           | PENDING \<Rightarrow> s\<lparr>status := streaming\<rparr>
           | SEARCHING \<Rightarrow> s\<lparr>status := streaming\<rparr>
           | PAUSED \<Rightarrow> s\<lparr>status := finished\<rparr>
           | ERROR \<Rightarrow> s\<lparr>status := finished\<rparr>
           | SUCCESS \<Rightarrow> s\<lparr>status := finished\<rparr>
           | OTHER v \<Rightarrow> emit (Logger Warn ''Unexpected assistant message status:'') s))"

subsection \<open>The handlers of the view\<close>

text \<open>\<open>handleChangeLanguage\<close> (lines 184-192). The write to the settings table is not
  awaited; it is applied at once.\<close>

definition handleChangeLanguage ::
  "controller \<Rightarrow> TranslateLanguage \<Rightarrow> controller \<Rightarrow> controller" where
  "handleChangeLanguage r newTargetLanguage s =
     (if \<not> initialized r then s
      else
        let s1 = s\<lparr>targetLanguage := newTargetLanguage, targetLangRef := newTargetLanguage\<rparr>;
            s2 = emit (DbSettingsPut ''translate:target:language'' (langCode newTargetLanguage)) s1
        in s2\<lparr>db_settings :=
                (db_settings s2)(''translate:target:language'' \<mapsto> langCode newTargetLanguage)\<rparr>)"

text \<open>\<open>handlePause\<close> (lines 194-203).\<close>

definition handlePause :: "controller \<Rightarrow> controller" where
  "handlePause s =
     (let s1 = emit (Logger Silly ''Try to pause: '') s;
          s2 = (if askId s1 \<noteq> [] then emit (AbortCompletion (askId s1)) s1 else s1)
      in case topicRef s2 of
           None \<Rightarrow> s2
         | Some t \<Rightarrow> if topic_id t \<noteq> [] then emit (PauseTrace (topic_id t)) s2 else s2)"

text \<open>\<open>handleRegenerate\<close> (lines 205-208).\<close>

definition handleRegenerate :: "render_env \<Rightarrow> controller \<Rightarrow> controller \<Rightarrow> controller" where
  "handleRegenerate env r s = fetchResult env r (s\<lparr>contentToCopy := []\<rparr>)"

text \<open>The click handler of the header of the original text (line 226).\<close>

definition toggleOriginal :: "controller \<Rightarrow> controller \<Rightarrow> controller" where
  "toggleOriginal r s = s\<lparr>showOriginal := \<not> showOriginal r\<rparr>"

text \<open>The error banner is rendered when the stored message is not empty (line 251).\<close>

definition errorShown :: "controller \<Rightarrow> bool" where
  "errorShown s \<longleftrightarrow> error s \<noteq> []"

subsection \<open>Operations and re-rendering\<close>

text \<open>Everything that can run on the controller: the two callbacks driven by effects, the
  status effect, the three handlers the view exposes, the toggle of the original text, and
  the four callbacks the completion service calls back.\<close>

datatype operation =
    Initialize
  | FetchResult
  | SyncStatus
  | ChangeLanguage TranslateLanguage
  | Pause
  | Regenerate
  | ToggleOriginal
  | SetAskId string
  | OnStream
  | OnFinish string
  | OnError string

fun exec :: "render_env \<Rightarrow> controller \<Rightarrow> operation \<Rightarrow> controller \<Rightarrow> controller" where
  "exec env r Initialize s = initialize env r s"
| "exec env r FetchResult s = fetchResult env r s"
| "exec env r SyncStatus s = syncStatus (allMessages env r) s"
| "exec env r (ChangeLanguage l) s = handleChangeLanguage r l s"
| "exec env r Pause s = handlePause s"
| "exec env r Regenerate s = handleRegenerate env r s"
| "exec env r ToggleOriginal s = toggleOriginal r s"
| "exec env r (SetAskId i) s = setAskId i s"
| "exec env r OnStream s = onStream env s"
| "exec env r (OnFinish c) s = onFinish c s"
| "exec env r (OnError m) s = onError m s"

text \<open>React renders again when a \<open>useState\<close> cell holds another value than at the last
  render.\<close>

definition needs_render :: "controller \<Rightarrow> controller \<Rightarrow> bool" where
  "needs_render r s \<longleftrightarrow>
     targetLanguage r \<noteq> targetLanguage s \<or> error r \<noteq> error s \<or>
     showOriginal r \<noteq> showOriginal s \<or> status r \<noteq> status s \<or>
     contentToCopy r \<noteq> contentToCopy s \<or> initialized r \<noteq> initialized s"

text \<open>The dependencies of the three effects, for two renders under the same props and
  hook values. \<open>initialize\<close> depends on \<open>action.selectedText\<close>, \<open>initialized\<close>,
  \<open>isLanguagesLoaded\<close> and \<open>updateTargetLanguage\<close> (lines 112, 77); \<open>fetchResult\<close> on
  \<open>action\<close>, \<open>targetLanguage\<close>, \<open>scrollToBottom\<close> and \<open>initialized\<close> (line 145); the
  status effect on \<open>currentAssistantMessage?.status\<close> (line 179).\<close>

definition initialize_changed :: "controller \<Rightarrow> controller \<Rightarrow> bool" where
  "initialize_changed r s \<longleftrightarrow> initialized r \<noteq> initialized s"

definition fetchResult_changed :: "controller \<Rightarrow> controller \<Rightarrow> bool" where
  "fetchResult_changed r s \<longleftrightarrow>
     targetLanguage r \<noteq> targetLanguage s \<or> initialized r \<noteq> initialized s"

definition currentStatus :: "render_env \<Rightarrow> controller \<Rightarrow> AssistantMessageStatus option" where
  "currentStatus env r = map_option message_status (currentAssistantMessage (allMessages env r))"

text \<open>One render after the render \<open>r\<close>, in state \<open>s\<close>: the effects whose dependencies
  changed run in the order of their declaration (lines 118, 147, 161), each with the
  closures of the new render.\<close>

definition run_effects :: "render_env \<Rightarrow> controller \<Rightarrow> controller \<Rightarrow> controller" where
  "run_effects env r s =
     (let s1 = (if initialize_changed r s then initialize env s s else s);
          s2 = (if fetchResult_changed r s then fetchResult env s s1 else s1)
      in if currentStatus env r \<noteq> currentStatus env s
         then syncStatus (allMessages env s) s2 else s2)"

text \<open>Rendering until no state cell changes, at most \<open>n\<close> times.\<close>

fun settle :: "nat \<Rightarrow> render_env \<Rightarrow> controller \<Rightarrow> controller \<Rightarrow> controller" where
  "settle 0 env r s = s"
| "settle (Suc n) env r s =
     (if needs_render r s then settle n env s (run_effects env r s) else s)"

text \<open>An operation run on the rendered state, and the renders that follow it.\<close>

definition dispatch :: "nat \<Rightarrow> render_env \<Rightarrow> operation \<Rightarrow> controller \<Rightarrow> controller" where
  "dispatch n env op s = settle n env s (exec env s op s)"

text \<open>Mounting: the first render runs every effect once.\<close>

definition mount :: "nat \<Rightarrow> render_env \<Rightarrow> (string \<rightharpoonup> string) \<Rightarrow> controller" where
  "mount n env db =
     (let s0 = initialController env db;
          s1 = initialize env s0 s0;
          s2 = fetchResult env s0 s1;
          s3 = syncStatus (allMessages env s0) s2
      in settle n env s0 s3)"

text \<open>Calls of \<open>initialize\<close> that may overlap. \<open>Call env\<close> is a call made by the effect
  of a render under \<open>env\<close> of the state it finds: it runs up to the suspension and, if it
  suspends, queues its continuation. \<open>Resume\<close> runs the oldest queued continuation with the
  record the settings table holds then.\<close>

datatype init_event = Call render_env | Resume

fun initialize_schedule ::
  "init_event list \<Rightarrow> controller \<times> (render_env \<times> bool \<times> string) list \<Rightarrow>
     controller \<times> (render_env \<times> bool \<times> string) list" where
  "initialize_schedule [] w = w"
| "initialize_schedule (Call env # es) (s, ps) =
     (case initialize_start env s s of
        (s1, None) \<Rightarrow> initialize_schedule es (s1, ps)
      | (s1, Some k) \<Rightarrow> initialize_schedule es (s1, ps @ [(env, k)]))"
| "initialize_schedule (Resume # es) (s, []) = initialize_schedule es (s, [])"
| "initialize_schedule (Resume # es) (s, (env, k) # ps) =
     initialize_schedule es
       (initialize_resume env k (db_settings s ''translate:target:language'') s, ps)"

text \<open>Constructions of an assistant and of a topic among the calls made.\<close>

fun is_assistant_construction :: "event \<Rightarrow> bool" where
  "is_assistant_construction (GetDefaultTranslateAssistant l t) = True"
| "is_assistant_construction e = False"

fun is_topic_construction :: "event \<Rightarrow> bool" where
  "is_topic_construction (GetDefaultTopic a) = True"
| "is_topic_construction e = False"

fun is_abort :: "event \<Rightarrow> bool" where
  "is_abort (AbortCompletion i) = True"
| "is_abort e = False"

fun is_submit :: "event \<Rightarrow> bool" where
  "is_submit (ProcessMessages a t c) = True"
| "is_submit e = False"

text \<open>The calls an operation added to those of \<open>s\<close>.\<close>

definition new_events :: "controller \<Rightarrow> controller \<Rightarrow> event list" where
  "new_events s s' = drop (length (trace s)) (trace s')"

subsection \<open>An example environment\<close>

definition english :: TranslateLanguage where
  "english = \<lparr>langValue = ''English'', langCode = ''en-us''\<rparr>"

definition chinese :: TranslateLanguage where
  "chinese = \<lparr>langValue = ''Chinese (Simplified)'', langCode = ''zh-cn''\<rparr>"

definition japanese :: TranslateLanguage where
  "japanese = \<lparr>langValue = ''Japanese'', langCode = ''ja-jp''\<rparr>"

definition unknown :: TranslateLanguage where
  "unknown = \<lparr>langValue = ''Unknown'', langCode = ''unknown''\<rparr>"

definition catalog :: "string \<Rightarrow> TranslateLanguage" where
  "catalog c =
     (if c = ''en-us'' then english
      else if c = ''zh-cn'' then chinese
      else if c = ''ja-jp'' then japanese
      else unknown)"

definition example_env :: render_env where
  "example_env =
     \<lparr>selectedText = Some ''hello'',
      scrollToBottom = True,
      language = ''en-us'',
      getLanguageByLangcode = catalog,
      isLanguagesLoaded = True,
      UNKNOWN = unknown,
      LanguagesEnum_zhCN = chinese,
      getDefaultTranslateAssistant =
        (\<lambda>l t. \<lparr>assistant_id = ''default'', content = langValue l @ '': '' @ t\<rparr>),
      getDefaultTopic = (\<lambda>a. \<lparr>topic_id = ''topic-1'', assistantId = a\<rparr>),
      topicMessages = (\<lambda>t. [])\<rparr>"

definition example_state :: controller where
  "example_state = mount 3 example_env Map.empty"

definition example_messages :: "Message list" where
  "example_messages =
     [\<lparr>message_id = ''m1'', role = ''user'', message_status = SUCCESS\<rparr>,
      \<lparr>message_id = ''m2'', role = ''assistant'', message_status = SUCCESS\<rparr>,
      \<lparr>message_id = ''m3'', role = ''user'', message_status = SUCCESS\<rparr>,
      \<lparr>message_id = ''m4'', role = ''assistant'', message_status = OTHER ''queued''\<rparr>,
      \<lparr>message_id = ''m5'', role = ''user'', message_status = PENDING\<rparr>]"

text \<open>The example environment with the empty string selected, and the state the
  component reaches in it.\<close>

definition empty_selection_env :: render_env where
  "empty_selection_env = example_env\<lparr>selectedText := Some []\<rparr>"

definition empty_selection_state :: controller where
  "empty_selection_state = mount 3 empty_selection_env Map.empty"

text \<open>The example environment after the selected text changed.\<close>

definition changed_selection_env :: render_env where
  "changed_selection_env = example_env\<lparr>selectedText := Some ''world''\<rparr>"

subsection \<open>Reachable states\<close>

text \<open>A sequence of operations, each followed by its renders, and the relation between
  the flag \<open>initialized\<close> and the two refs that holds in every state so reached.\<close>

definition refs_ready :: "controller \<Rightarrow> bool" where
  "refs_ready s \<longleftrightarrow> (initialized s \<longrightarrow> assistantRef s \<noteq> None \<and> topicRef s \<noteq> None)"

fun run :: "nat \<Rightarrow> render_env \<Rightarrow> operation list \<Rightarrow> controller \<Rightarrow> controller" where
  "run n env [] s = s"
| "run n env (op # ops) s = run n env ops (dispatch n env op s)"

section \<open>Properties\<close>

subsection \<open>Auxiliary facts\<close>

lemma emit_fields:
  "targetLanguage (emit e s) = targetLanguage s"
  "error (emit e s) = error s"
  "showOriginal (emit e s) = showOriginal s"
  "status (emit e s) = status s"
  "contentToCopy (emit e s) = contentToCopy s"
  "initialized (emit e s) = initialized s"
  "assistantRef (emit e s) = assistantRef s"
  "topicRef (emit e s) = topicRef s"
  "askId (emit e s) = askId s"
  "targetLangRef (emit e s) = targetLangRef s"
  "db_settings (emit e s) = db_settings s"
  "trace (emit e s) = trace s @ [e]"
  by (simp_all add: emit_def)

lemma last_assistant_message:
  assumes "msgs = pre @ m # post" "role m = ''assistant''"
    "\<forall>x\<in>set post. role x \<noteq> ''assistant''"
  shows "currentAssistantMessage msgs = Some m"
proof -
  have "filter (\<lambda>message. role message = ''assistant'') post = []"
    using assms(3) by (simp add: filter_empty_conv)
  then have "filter (\<lambda>message. role message = ''assistant'') msgs
      = filter (\<lambda>message. role message = ''assistant'') pre @ [m]"
    using assms(1,2) by simp
  then show ?thesis
    by (simp add: currentAssistantMessage_def Let_def)
qed

lemma no_assistant_message:
  assumes "\<forall>x\<in>set msgs. role x \<noteq> ''assistant''"
  shows "currentAssistantMessage msgs = None"
proof -
  have "filter (\<lambda>message. role message = ''assistant'') msgs = []"
    using assms by (simp add: filter_empty_conv)
  then show ?thesis by (simp add: currentAssistantMessage_def)
qed

lemma new_events_emit [simp]: "new_events s (emit e s) = [e]"
  by (simp add: new_events_def emit_fields)

lemma new_events_self [simp]: "new_events s s = []"
  by (simp add: new_events_def)

lemma new_events_append: "trace s' = trace s @ es \<Longrightarrow> new_events s s' = es"
  by (simp add: new_events_def)

lemma fetchResult_guard:
  "\<not> (initialized r \<and> assistantRef s \<noteq> None \<and> topicRef s \<noteq> None \<and>
      (\<exists>txt. selectedText env = Some txt \<and> txt \<noteq> [])) \<Longrightarrow> fetchResult env r s = s"
  by (auto simp: fetchResult_def split: option.splits)

lemma fetchResult_submit:
  assumes "initialized r" "assistantRef s = Some a" "topicRef s = Some t"
    "selectedText env = Some txt" "txt \<noteq> []"
  shows "fetchResult env r s =
     s\<lparr>assistantRef := Some (getDefaultTranslateAssistant env (targetLanguage r) txt),
       trace := trace s @
         [GetDefaultTranslateAssistant (targetLanguage r) txt,
          Logger Debug ''process once'',
          ProcessMessages (getDefaultTranslateAssistant env (targetLanguage r) txt) t
            (content (getDefaultTranslateAssistant env (targetLanguage r) txt))]\<rparr>"
  using assms by (simp add: fetchResult_def Let_def emit_def)

lemma example_state_fields:
  "initialized example_state"
  "assistantRef example_state = Some \<lparr>assistant_id = ''default'', content = ''English: hello''\<rparr>"
  "topicRef example_state = Some \<lparr>topic_id = ''topic-1'', assistantId = ''default''\<rparr>"
  "targetLanguage example_state = english"
  "targetLangRef example_state = english"
  "error example_state = []"
  "askId example_state = []"
  "contentToCopy example_state = []"
  "status example_state = preparing"
  by (simp_all add: example_state_def mount_def initialController_def initialTargetLanguage_def
      example_env_def catalog_def english_def unknown_def initialize_def updateTargetLanguage_def
      fetchResult_def syncStatus_def currentAssistantMessage_def allMessages_def
      run_effects_def needs_render_def initialize_changed_def fetchResult_changed_def
      currentStatus_def emit_def Let_def numeral_3_eq_3)

lemma fetchResult_frame:
  "topicRef (fetchResult env r s) = topicRef s"
  "contentToCopy (fetchResult env r s) = contentToCopy s"
  "error (fetchResult env r s) = error s"
  "status (fetchResult env r s) = status s"
  "targetLanguage (fetchResult env r s) = targetLanguage s"
  "initialized (fetchResult env r s) = initialized s"
  "showOriginal (fetchResult env r s) = showOriginal s"
  by (simp_all add: fetchResult_def Let_def emit_def split: option.splits)

lemma fetchResult_status_update:
  "fetchResult env r (s\<lparr>status := st\<rparr>) = (fetchResult env r s)\<lparr>status := st\<rparr>"
  by (simp add: fetchResult_def Let_def emit_def split: option.splits)

lemma example_env_fields:
  "selectedText example_env = Some ''hello''"
  "isLanguagesLoaded example_env"
  "getLanguageByLangcode example_env = catalog"
  "UNKNOWN example_env = unknown"
  "LanguagesEnum_zhCN example_env = chinese"
  "language example_env = ''en-us''"
  "getDefaultTranslateAssistant example_env l t = \<lparr>assistant_id = ''default'', content = langValue l @ '': '' @ t\<rparr>"
  "getDefaultTopic example_env a = \<lparr>topic_id = ''topic-1'', assistantId = a\<rparr>"
  "topicMessages example_env i = []"
  "scrollToBottom example_env"
  by (simp_all add: example_env_def)

lemma handlePause_trace:
  "trace (handlePause s) = trace s @
     [Logger Silly ''Try to pause: ''] @
     (if askId s \<noteq> [] then [AbortCompletion (askId s)] else []) @
     (case topicRef s of None \<Rightarrow> []
      | Some t \<Rightarrow> if topic_id t \<noteq> [] then [PauseTrace (topic_id t)] else [])"
  by (simp add: handlePause_def Let_def emit_def split: option.splits)

lemma handlePause_frame:
  "handlePause s = s\<lparr>trace := trace (handlePause s)\<rparr>"
  by (simp add: handlePause_def Let_def emit_def split: option.splits)

lemma updateTargetLanguage_saved:
  assumes "isLanguagesLoaded env" "db_settings s ''translate:target:language'' = Some v" "v \<noteq> []"
  shows "updateTargetLanguage env s =
     s\<lparr>targetLanguage := getLanguageByLangcode env v,
       targetLangRef := getLanguageByLangcode env v,
       trace := trace s @ [DbSettingsGet ''translate:target:language'']\<rparr>"
  using assms by (simp add: updateTargetLanguage_def Let_def emit_def)

lemma error_initialize: "error (initialize env r s) = error s"
  by (simp add: initialize_def updateTargetLanguage_def Let_def emit_def split: option.splits)

lemma error_syncStatus: "error (syncStatus msgs s) = error s"
  by (simp add: syncStatus_def emit_def split: option.splits AssistantMessageStatus.splits)

lemma error_handleChangeLanguage: "error (handleChangeLanguage r l s) = error s"
  by (simp add: handleChangeLanguage_def Let_def emit_def)

lemma error_handlePause: "error (handlePause s) = error s"
  by (simp add: handlePause_def Let_def emit_def split: option.splits)

lemma error_handleRegenerate: "error (handleRegenerate env r s) = error s"
  by (simp add: handleRegenerate_def fetchResult_frame)

lemma error_exec:
  "error (exec env r op s) = (case op of OnError m \<Rightarrow> m | _ \<Rightarrow> error s)"
  by (cases op)
    (simp_all add: error_initialize fetchResult_frame error_syncStatus error_handleChangeLanguage
      error_handlePause error_handleRegenerate toggleOriginal_def setAskId_def onStream_def
      onFinish_def onError_def emit_def Let_def)

lemma error_run_effects: "error (run_effects env r s) = error s"
  by (simp add: run_effects_def Let_def error_initialize fetchResult_frame error_syncStatus)

lemma error_settle: "error (settle n env r s) = error s"
  by (induction n arbitrary: r s) (simp_all add: error_run_effects)

lemma initialController_fields:
  "initialized (initialController env db) = False"
  "assistantRef (initialController env db) = None"
  "topicRef (initialController env db) = None"
  "db_settings (initialController env db) = db"
  "targetLanguage (initialController env db) = fst (initialTargetLanguage env)"
  "targetLangRef (initialController env db) = fst (initialTargetLanguage env)"
  "trace (initialController env db) = snd (initialTargetLanguage env)"
  by (simp_all add: initialController_def)



lemma updateTargetLanguage_split:
  "updateTargetLanguage env s =
     (case updateTargetLanguage_start env s of
        (s1, reading) \<Rightarrow>
          if reading
          then updateTargetLanguage_resume env (db_settings s1 ''translate:target:language'') s1
          else s1)"
  by (simp add: updateTargetLanguage_def updateTargetLanguage_start_def
      updateTargetLanguage_resume_def Let_def emit_fields split: option.splits)

lemma initialize_split:
  "initialize env r s =
     (case initialize_start env r s of
        (s1, None) \<Rightarrow> s1
      | (s1, Some k) \<Rightarrow>
          initialize_resume env k (db_settings s1 ''translate:target:language'') s1)"
  by (simp add: initialize_def initialize_start_def initialize_resume_def
      updateTargetLanguage_def updateTargetLanguage_start_def updateTargetLanguage_resume_def
      Let_def emit_def split: option.splits)

lemma initialize_start_guard:
  "initialized r \<Longrightarrow>
     initialize_start env r s =
       (emit (Logger Silly ''[initialize] Already initialized.'') s, None)"
  by (simp add: initialize_start_def)

lemma fetchResult_frame_cells:
  "targetLangRef (fetchResult env r s) = targetLangRef s"
  "db_settings (fetchResult env r s) = db_settings s"
  "askId (fetchResult env r s) = askId s"
  by (simp_all add: fetchResult_def Let_def emit_def split: option.splits)

lemma settle_stable: "\<not> needs_render r s \<Longrightarrow> settle n env r s = s"
  by (cases n) simp_all

lemma handleChangeLanguage_initialized:
  "initialized r \<Longrightarrow>
     handleChangeLanguage r l s =
       s\<lparr>targetLanguage := l, targetLangRef := l,
         db_settings := (db_settings s)(''translate:target:language'' \<mapsto> langCode l),
         trace := trace s @ [DbSettingsPut ''translate:target:language'' (langCode l)]\<rparr>"
  by (simp add: handleChangeLanguage_def Let_def emit_def)

lemma changeLanguage_same:
  assumes "initialized s" "l = targetLanguage s"
  shows "dispatch n env (ChangeLanguage l) s = handleChangeLanguage s l s"
proof -
  have "\<not> needs_render s (handleChangeLanguage s l s)"
    using assms by (simp add: handleChangeLanguage_initialized needs_render_def)
  then show ?thesis
    by (simp add: dispatch_def settle_stable)
qed

lemma changeLanguage_render:
  assumes "initialized s" "l \<noteq> targetLanguage s"
  shows "dispatch (Suc n) env (ChangeLanguage l) s =
     fetchResult env (handleChangeLanguage s l s) (handleChangeLanguage s l s)"
proof -
  let ?s1 = "handleChangeLanguage s l s"
  have s1: "?s1 = s\<lparr>targetLanguage := l, targetLangRef := l,
         db_settings := (db_settings s)(''translate:target:language'' \<mapsto> langCode l),
         trace := trace s @ [DbSettingsPut ''translate:target:language'' (langCode l)]\<rparr>"
    using assms(1) by (rule handleChangeLanguage_initialized)
  have n: "needs_render s ?s1"
    using assms(2) by (simp add: s1 needs_render_def)
  have i: "\<not> initialize_changed s ?s1"
    by (simp add: s1 initialize_changed_def)
  have f: "fetchResult_changed s ?s1"
    using assms(2) by (simp add: s1 fetchResult_changed_def)
  have c: "currentStatus env s = currentStatus env ?s1"
    by (simp add: s1 currentStatus_def allMessages_def)
  have e: "run_effects env s ?s1 = fetchResult env ?s1 ?s1"
    using i f c by (simp add: run_effects_def Let_def)
  have "\<not> needs_render ?s1 (fetchResult env ?s1 ?s1)"
    by (simp add: needs_render_def fetchResult_frame)
  then have "settle n env ?s1 (fetchResult env ?s1 ?s1) = fetchResult env ?s1 ?s1"
    by (rule settle_stable)
  then show ?thesis
    using n e by (simp add: dispatch_def)
qed

lemma empty_selection_state_fields:
  "initialized empty_selection_state"
  "targetLanguage empty_selection_state = english"
  "topicRef empty_selection_state = Some \<lparr>topic_id = ''topic-1'', assistantId = ''default''\<rparr>"
  "assistantRef empty_selection_state = Some \<lparr>assistant_id = ''default'', content = ''English: ''\<rparr>"
  "filter is_submit (trace empty_selection_state) = []"
  by (simp_all add: empty_selection_state_def empty_selection_env_def mount_def
      initialController_def initialTargetLanguage_def
      example_env_def catalog_def english_def unknown_def initialize_def updateTargetLanguage_def
      fetchResult_def syncStatus_def currentAssistantMessage_def allMessages_def
      run_effects_def needs_render_def initialize_changed_def fetchResult_changed_def
      currentStatus_def emit_def Let_def numeral_3_eq_3)

lemma refs_ready_initialize: "refs_ready s \<Longrightarrow> refs_ready (initialize env r s)"
  by (simp add: refs_ready_def initialize_def updateTargetLanguage_def Let_def emit_def
      split: option.splits)

lemma refs_ready_fetchResult: "refs_ready s \<Longrightarrow> refs_ready (fetchResult env r s)"
  by (auto simp: refs_ready_def fetchResult_def Let_def emit_def split: option.splits)

lemma refs_ready_syncStatus: "refs_ready s \<Longrightarrow> refs_ready (syncStatus msgs s)"
  by (simp add: refs_ready_def syncStatus_def emit_def
      split: option.splits AssistantMessageStatus.splits)

lemma refs_ready_exec: "refs_ready s \<Longrightarrow> refs_ready (exec env r op s)"
proof (cases op)
  case Initialize
  assume "refs_ready s"
  then show ?thesis using Initialize by (simp add: refs_ready_initialize)
next
  case FetchResult
  assume "refs_ready s"
  then show ?thesis using FetchResult by (simp add: refs_ready_fetchResult)
next
  case SyncStatus
  assume "refs_ready s"
  then show ?thesis using SyncStatus by (simp add: refs_ready_syncStatus)
next
  case (ChangeLanguage l)
  assume "refs_ready s"
  then show ?thesis using ChangeLanguage
    by (simp add: refs_ready_def handleChangeLanguage_def Let_def emit_def)
next
  case Pause
  assume "refs_ready s"
  then show ?thesis using Pause
    by (auto simp: refs_ready_def handlePause_def Let_def emit_def split: option.splits)
next
  case Regenerate
  assume "refs_ready s"
  then have "refs_ready (s\<lparr>contentToCopy := []\<rparr>)" by (simp add: refs_ready_def)
  then show ?thesis using Regenerate
    by (simp add: handleRegenerate_def refs_ready_fetchResult)
next
  case ToggleOriginal
  assume "refs_ready s"
  then show ?thesis using ToggleOriginal by (simp add: refs_ready_def toggleOriginal_def)
next
  case (SetAskId i)
  assume "refs_ready s"
  then show ?thesis using SetAskId by (simp add: refs_ready_def setAskId_def)
next
  case OnStream
  assume "refs_ready s"
  then show ?thesis using OnStream by (simp add: refs_ready_def onStream_def Let_def emit_def)
next
  case (OnFinish c)
  assume "refs_ready s"
  then show ?thesis using OnFinish by (simp add: refs_ready_def onFinish_def)
next
  case (OnError m)
  assume "refs_ready s"
  then show ?thesis using OnError by (simp add: refs_ready_def onError_def)
qed

lemma refs_ready_run_effects: "refs_ready s \<Longrightarrow> refs_ready (run_effects env r s)"
  by (simp add: run_effects_def Let_def refs_ready_initialize refs_ready_fetchResult
      refs_ready_syncStatus)

lemma refs_ready_settle: "refs_ready s \<Longrightarrow> refs_ready (settle n env r s)"
  by (induction n arbitrary: r s) (simp_all add: refs_ready_run_effects)

lemma refs_ready_mount: "refs_ready (mount n env db)"
proof -
  have "refs_ready (initialController env db)"
    by (simp add: refs_ready_def initialController_def)
  then show ?thesis
    by (simp add: mount_def Let_def refs_ready_settle refs_ready_syncStatus
        refs_ready_fetchResult refs_ready_initialize)
qed

lemma refs_ready_run: "refs_ready s \<Longrightarrow> refs_ready (run n env ops s)"
  by (induction ops arbitrary: s) (simp_all add: dispatch_def refs_ready_settle refs_ready_exec)

lemma reachable_refs_ready: "refs_ready (run n env ops (mount k env db))"
  by (simp add: refs_ready_run refs_ready_mount)

subsection \<open>Status synchronisation\<close>

text \<open>
  Claim C1. The status effect maps the last message of role \<open>assistant\<close> among the messages
  of the topic to the controller status: \<open>pending\<close>, \<open>processing\<close> and \<open>searching\<close> give
  \<open>streaming\<close>; \<open>paused\<close>, \<open>error\<close> and \<open>success\<close> give \<open>finished\<close>; any other value
  leaves the status as it is and logs one warning; with no message of role \<open>assistant\<close>
  nothing changes. The last such message is characterised here without the filter of the
  code: it is followed only by messages of other roles. The effect is a total function, so
  it returns a state on every input.
\<close>

theorem status_sync_mapping:
  "(\<forall>pre m post.
      msgs = pre @ m # post \<and> role m = ''assistant'' \<and>
      (\<forall>x\<in>set post. role x \<noteq> ''assistant'') \<longrightarrow>
        (message_status m \<in> {PENDING, PROCESSING, SEARCHING} \<longrightarrow>
           syncStatus msgs s = s\<lparr>status := streaming\<rparr>) \<and>
        (message_status m \<in> {PAUSED, ERROR, SUCCESS} \<longrightarrow>
           syncStatus msgs s = s\<lparr>status := finished\<rparr>) \<and>
        (\<forall>v. message_status m = OTHER v \<longrightarrow>
           syncStatus msgs s = emit (Logger Warn ''Unexpected assistant message status:'') s \<and>
           status (syncStatus msgs s) = status s)) \<and>
   ((\<forall>x\<in>set msgs. role x \<noteq> ''assistant'') \<longrightarrow> syncStatus msgs s = s)"
proof (intro conjI allI impI)
  fix pre m post
  assume h: "msgs = pre @ m # post \<and> role m = ''assistant'' \<and>
      (\<forall>x\<in>set post. role x \<noteq> ''assistant'')"
  then have cur: "currentAssistantMessage msgs = Some m"
    using last_assistant_message by blast
  { assume "message_status m \<in> {PENDING, PROCESSING, SEARCHING}"
    then show "syncStatus msgs s = s\<lparr>status := streaming\<rparr>"
      using cur by (auto simp: syncStatus_def) }
  { assume "message_status m \<in> {PAUSED, ERROR, SUCCESS}"
    then show "syncStatus msgs s = s\<lparr>status := finished\<rparr>"
      using cur by (auto simp: syncStatus_def) }
  { fix v assume "message_status m = OTHER v"
    then show "syncStatus msgs s = emit (Logger Warn ''Unexpected assistant message status:'') s"
      and "status (syncStatus msgs s) = status s"
      using cur by (simp_all add: syncStatus_def emit_fields) }
next
  assume "\<forall>x\<in>set msgs. role x \<noteq> ''assistant''"
  then show "syncStatus msgs s = s"
    by (simp add: no_assistant_message syncStatus_def)
qed

theorem status_sync_mapping_witness:
  "syncStatus example_messages (example_state\<lparr>status := streaming\<rparr>)
     = emit (Logger Warn ''Unexpected assistant message status:'') (example_state\<lparr>status := streaming\<rparr>) \<and>
   status (syncStatus example_messages (example_state\<lparr>status := streaming\<rparr>)) = streaming \<and>
   syncStatus (take 3 example_messages) example_state = example_state\<lparr>status := finished\<rparr> \<and>
   syncStatus [hd example_messages] example_state = example_state"
proof -
  have a: "example_messages = take 3 example_messages @ (example_messages ! 3) # drop 4 example_messages"
    by (simp add: example_messages_def)
  have b: "take 3 example_messages = take 1 example_messages @ (example_messages ! 1) # drop 2 (take 3 example_messages)"
    by (simp add: example_messages_def)
  have r3: "role (example_messages ! 3) = ''assistant'' \<and> (\<forall>x\<in>set (drop 4 example_messages). role x \<noteq> ''assistant'')"
    by (simp add: example_messages_def)
  have r1: "role (example_messages ! 1) = ''assistant'' \<and> (\<forall>x\<in>set (drop 2 (take 3 example_messages)). role x \<noteq> ''assistant'')"
    by (simp add: example_messages_def)
  have s3: "message_status (example_messages ! 3) = OTHER ''queued''"
    by (simp add: example_messages_def)
  have s1: "message_status (example_messages ! 1) \<in> {PAUSED, ERROR, SUCCESS}"
    by (simp add: example_messages_def)
  have n: "\<forall>x\<in>set [hd example_messages]. role x \<noteq> ''assistant''"
    by (simp add: example_messages_def)
  from status_sync_mapping [of example_messages "example_state\<lparr>status := streaming\<rparr>"] a r3 s3
  have 1: "syncStatus example_messages (example_state\<lparr>status := streaming\<rparr>)
     = emit (Logger Warn ''Unexpected assistant message status:'') (example_state\<lparr>status := streaming\<rparr>) \<and>
     status (syncStatus example_messages (example_state\<lparr>status := streaming\<rparr>)) = status (example_state\<lparr>status := streaming\<rparr>)"
    by blast
  from status_sync_mapping [of "take 3 example_messages" example_state] b r1 s1
  have 2: "syncStatus (take 3 example_messages) example_state = example_state\<lparr>status := finished\<rparr>"
    by blast
  from status_sync_mapping [of "[hd example_messages]" example_state] n
  have 3: "syncStatus [hd example_messages] example_state = example_state"
    by blast
  from 1 2 3 show ?thesis by (simp add: emit_fields)
qed

subsection \<open>Fetching\<close>

text \<open>
  Claim C5. \<open>fetchResult\<close> does nothing (the state, with the list of calls made, is the one
  it was given: no assistant is built, nothing is submitted, no callback is registered)
  unless the closure's \<open>initialized\<close> holds, both refs are set and the selected text is
  defined and not empty. In particular it does nothing in the state the component starts
  in, whatever closure calls it.
\<close>

theorem fetchResult_noop_unless_ready:
  "(\<not> (initialized r \<and> assistantRef s \<noteq> None \<and> topicRef s \<noteq> None \<and>
        (\<exists>txt. selectedText env = Some txt \<and> txt \<noteq> [])) \<longrightarrow> fetchResult env r s = s) \<and>
   fetchResult env r (initialController env db) = initialController env db"
proof (intro conjI impI)
  assume "\<not> (initialized r \<and> assistantRef s \<noteq> None \<and> topicRef s \<noteq> None \<and>
        (\<exists>txt. selectedText env = Some txt \<and> txt \<noteq> []))"
  then show "fetchResult env r s = s" by (rule fetchResult_guard)
next
  have "assistantRef (initialController env db) = None"
    by (simp add: initialController_def)
  then show "fetchResult env r (initialController env db) = initialController env db"
    by (simp add: fetchResult_guard)
qed

theorem fetchResult_noop_unless_ready_witness:
  "fetchResult example_env (example_state\<lparr>initialized := False\<rparr>) example_state = example_state \<and>
   fetchResult (example_env\<lparr>selectedText := None\<rparr>) example_state example_state = example_state \<and>
   fetchResult example_env example_state (example_state\<lparr>topicRef := None\<rparr>)
     = example_state\<lparr>topicRef := None\<rparr> \<and>
   fetchResult example_env example_state (initialController example_env Map.empty)
     = initialController example_env Map.empty"
  using fetchResult_noop_unless_ready
      [of "example_state\<lparr>initialized := False\<rparr>" example_state example_env Map.empty]
    fetchResult_noop_unless_ready
      [of example_state example_state "example_env\<lparr>selectedText := None\<rparr>" Map.empty]
    fetchResult_noop_unless_ready
      [of example_state "example_state\<lparr>topicRef := None\<rparr>" example_env Map.empty]
    fetchResult_noop_unless_ready
      [of example_state example_state example_env Map.empty]
  by simp

subsection \<open>Regeneration\<close>

text \<open>
  Claim C6. \<open>handleRegenerate\<close> first clears the copyable text and then calls
  \<open>fetchResult\<close> on the cleared state, whatever the status is (the status is neither read
  nor changed). The copyable text is empty afterwards, the topic ref is the one it was, and
  when the preconditions of \<open>fetchResult\<close> hold the calls added are exactly one
  construction of an assistant and one submission over the topic of the ref.
\<close>

theorem regenerate_clears_then_fetches:
  "contentToCopy (handleRegenerate env r s) = [] \<and>
   handleRegenerate env r s = fetchResult env r (s\<lparr>contentToCopy := []\<rparr>) \<and>
   topicRef (handleRegenerate env r s) = topicRef s \<and>
   (\<forall>st. handleRegenerate env r (s\<lparr>status := st\<rparr>) = (handleRegenerate env r s)\<lparr>status := st\<rparr>) \<and>
   (\<forall>a t txt.
      initialized r \<and> assistantRef s = Some a \<and> topicRef s = Some t \<and>
      selectedText env = Some txt \<and> txt \<noteq> [] \<longrightarrow>
        new_events s (handleRegenerate env r s) =
          [GetDefaultTranslateAssistant (targetLanguage r) txt,
           Logger Debug ''process once'',
           ProcessMessages (getDefaultTranslateAssistant env (targetLanguage r) txt) t
             (content (getDefaultTranslateAssistant env (targetLanguage r) txt))])"
proof (intro conjI allI impI)
  show "contentToCopy (handleRegenerate env r s) = []"
    by (simp add: handleRegenerate_def fetchResult_frame)
  show "handleRegenerate env r s = fetchResult env r (s\<lparr>contentToCopy := []\<rparr>)"
    by (simp add: handleRegenerate_def)
  show "topicRef (handleRegenerate env r s) = topicRef s"
    by (simp add: handleRegenerate_def fetchResult_frame)
next
  fix st
  have "(s\<lparr>status := st\<rparr>)\<lparr>contentToCopy := []\<rparr> = (s\<lparr>contentToCopy := []\<rparr>)\<lparr>status := st\<rparr>"
    by (rule controller.equality) simp_all
  then have "handleRegenerate env r (s\<lparr>status := st\<rparr>) =
      fetchResult env r ((s\<lparr>contentToCopy := []\<rparr>)\<lparr>status := st\<rparr>)"
    by (simp only: handleRegenerate_def)
  also have "\<dots> = (fetchResult env r (s\<lparr>contentToCopy := []\<rparr>))\<lparr>status := st\<rparr>"
    by (rule fetchResult_status_update)
  finally show "handleRegenerate env r (s\<lparr>status := st\<rparr>) = (handleRegenerate env r s)\<lparr>status := st\<rparr>"
    by (simp only: handleRegenerate_def)
next
  fix a t tx
  assume h: "initialized r \<and> assistantRef s = Some a \<and> topicRef s = Some t \<and>
      selectedText env = Some tx \<and> tx \<noteq> []"
  then have "trace (handleRegenerate env r s) = trace s @
      [GetDefaultTranslateAssistant (targetLanguage r) tx,
       Logger Debug ''process once'',
       ProcessMessages (getDefaultTranslateAssistant env (targetLanguage r) tx) t
         (content (getDefaultTranslateAssistant env (targetLanguage r) tx))]"
    by (simp add: handleRegenerate_def fetchResult_submit [of r "s\<lparr>contentToCopy := []\<rparr>" a t env tx])
  then show "new_events s (handleRegenerate env r s) =
      [GetDefaultTranslateAssistant (targetLanguage r) tx,
       Logger Debug ''process once'',
       ProcessMessages (getDefaultTranslateAssistant env (targetLanguage r) tx) t
         (content (getDefaultTranslateAssistant env (targetLanguage r) tx))]"
    by (rule new_events_append)
qed

theorem regenerate_clears_then_fetches_witness:
  "contentToCopy (handleRegenerate example_env example_state
      (onFinish ''Hallo'' example_state)) = [] \<and>
   status (handleRegenerate example_env example_state
      (onFinish ''Hallo'' example_state)) = finished \<and>
   new_events (onFinish ''Hallo'' example_state)
     (handleRegenerate example_env example_state (onFinish ''Hallo'' example_state)) =
     [GetDefaultTranslateAssistant english ''hello'',
      Logger Debug ''process once'',
      ProcessMessages \<lparr>assistant_id = ''default'', content = ''English: hello''\<rparr>
        \<lparr>topic_id = ''topic-1'', assistantId = ''default''\<rparr> ''English: hello'']"
proof -
  have f: "contentToCopy (onFinish ''Hallo'' example_state) = ''Hallo''"
    "assistantRef (onFinish ''Hallo'' example_state) = assistantRef example_state"
    "topicRef (onFinish ''Hallo'' example_state) = topicRef example_state"
    "status (onFinish ''Hallo'' example_state) = finished"
    by (simp_all add: onFinish_def)
  note T = regenerate_clears_then_fetches
      [of example_env example_state "onFinish ''Hallo'' example_state"]
  have a: "contentToCopy (handleRegenerate example_env example_state
      (onFinish ''Hallo'' example_state)) = []"
    using T by (rule conjunct1)
  have "handleRegenerate example_env example_state ((onFinish ''Hallo'' example_state)\<lparr>status := finished\<rparr>)
      = (handleRegenerate example_env example_state (onFinish ''Hallo'' example_state))\<lparr>status := finished\<rparr>"
    using T by blast
  moreover have "(onFinish ''Hallo'' example_state)\<lparr>status := finished\<rparr> = onFinish ''Hallo'' example_state"
    by (simp add: onFinish_def)
  ultimately have "handleRegenerate example_env example_state (onFinish ''Hallo'' example_state)
      = (handleRegenerate example_env example_state (onFinish ''Hallo'' example_state))\<lparr>status := finished\<rparr>"
    by simp
  then have "status (handleRegenerate example_env example_state (onFinish ''Hallo'' example_state))
      = status ((handleRegenerate example_env example_state (onFinish ''Hallo'' example_state))\<lparr>status := finished\<rparr>)"
    by (rule arg_cong)
  then have b: "status (handleRegenerate example_env example_state
      (onFinish ''Hallo'' example_state)) = finished"
    by simp
  have pre: "initialized example_state \<and>
      assistantRef (onFinish ''Hallo'' example_state)
        = Some \<lparr>assistant_id = ''default'', content = ''English: hello''\<rparr> \<and>
      topicRef (onFinish ''Hallo'' example_state)
        = Some \<lparr>topic_id = ''topic-1'', assistantId = ''default''\<rparr> \<and>
      selectedText example_env = Some ''hello'' \<and> ''hello'' \<noteq> []"
    by (simp add: f example_state_fields example_env_fields)
  have "new_events (onFinish ''Hallo'' example_state)
     (handleRegenerate example_env example_state (onFinish ''Hallo'' example_state)) =
     [GetDefaultTranslateAssistant (targetLanguage example_state) ''hello'',
      Logger Debug ''process once'',
      ProcessMessages (getDefaultTranslateAssistant example_env (targetLanguage example_state) ''hello'')
        \<lparr>topic_id = ''topic-1'', assistantId = ''default''\<rparr>
        (content (getDefaultTranslateAssistant example_env (targetLanguage example_state) ''hello''))]"
    using T pre by blast
  then have c: "new_events (onFinish ''Hallo'' example_state)
     (handleRegenerate example_env example_state (onFinish ''Hallo'' example_state)) =
     [GetDefaultTranslateAssistant english ''hello'',
      Logger Debug ''process once'',
      ProcessMessages \<lparr>assistant_id = ''default'', content = ''English: hello''\<rparr>
        \<lparr>topic_id = ''topic-1'', assistantId = ''default''\<rparr> ''English: hello'']"
    by (simp add: example_state_fields example_env_fields english_def)
  from a b c show ?thesis by blast
qed

subsection \<open>The initial target language\<close>

text \<open>
  Claim C7. When the interface language resolves to the sentinel \<open>UNKNOWN\<close>, the initial
  target language (state and mirror) is \<open>LanguagesEnum.zhCN\<close> and one warning is logged;
  otherwise it is the entry the catalog returns, and nothing is logged.
\<close>

theorem initial_target_language:
  "(getLanguageByLangcode env (language env) = UNKNOWN env \<longrightarrow>
      targetLanguage (initialController env db) = LanguagesEnum_zhCN env \<and>
      targetLangRef (initialController env db) = LanguagesEnum_zhCN env \<and>
      trace (initialController env db) =
        [Logger Warn ''[initialize targetLanguage] Unexpected UNKNOWN. Fallback to zh-CN'']) \<and>
   (getLanguageByLangcode env (language env) \<noteq> UNKNOWN env \<longrightarrow>
      targetLanguage (initialController env db) = getLanguageByLangcode env (language env) \<and>
      targetLangRef (initialController env db) = getLanguageByLangcode env (language env) \<and>
      trace (initialController env db) = [])"
proof (cases "getLanguageByLangcode env (language env) = UNKNOWN env")
  case True
  then have "initialTargetLanguage env =
      (LanguagesEnum_zhCN env,
       [Logger Warn ''[initialize targetLanguage] Unexpected UNKNOWN. Fallback to zh-CN''])"
    by (simp add: initialTargetLanguage_def)
  then show ?thesis
    using True by (simp add: initialController_fields)
next
  case False
  then have "initialTargetLanguage env = (getLanguageByLangcode env (language env), [])"
    by (simp add: initialTargetLanguage_def Let_def)
  then show ?thesis
    using False by (simp add: initialController_fields)
qed

theorem initial_target_language_witness:
  "targetLanguage (initialController (example_env\<lparr>language := ''tlh''\<rparr>) Map.empty) = chinese \<and>
   trace (initialController (example_env\<lparr>language := ''tlh''\<rparr>) Map.empty) =
     [Logger Warn ''[initialize targetLanguage] Unexpected UNKNOWN. Fallback to zh-CN''] \<and>
   targetLanguage (initialController (example_env\<lparr>language := ''ja-jp''\<rparr>) Map.empty) = japanese \<and>
   trace (initialController (example_env\<lparr>language := ''ja-jp''\<rparr>) Map.empty) = []"
proof -
  have u: "catalog ''tlh'' = unknown" by (simp add: catalog_def)
  have j: "catalog ''ja-jp'' = japanese \<and> japanese \<noteq> unknown"
    by (simp add: catalog_def japanese_def unknown_def)
  show ?thesis
    using initial_target_language [of "example_env\<lparr>language := ''tlh''\<rparr>" Map.empty]
      initial_target_language [of "example_env\<lparr>language := ''ja-jp''\<rparr>" Map.empty] u j
    by (simp add: example_env_fields)
qed

subsection \<open>Pausing\<close>

text \<open>
  Claim C8. \<open>handlePause\<close> calls \<open>abortCompletion\<close> exactly when a request id is recorded
  (a non-empty \<open>askId\<close>), with that id; with no recorded id no cancellation is requested.
  It calls \<open>pauseTrace\<close> with the id of the topic of the ref when there is one (a topic
  with a non-empty id, as the code tests the id), and not when the ref is null. It changes
  no state cell and no ref: only the calls made are added.
\<close>

theorem pause_cancels_only_recorded_request:
  "(askId s = [] \<longrightarrow> filter is_abort (new_events s (handlePause s)) = []) \<and>
   (askId s \<noteq> [] \<longrightarrow>
      filter is_abort (new_events s (handlePause s)) = [AbortCompletion (askId s)]) \<and>
   (\<forall>t. topicRef s = Some t \<and> topic_id t \<noteq> [] \<longrightarrow>
      PauseTrace (topic_id t) \<in> set (new_events s (handlePause s))) \<and>
   (topicRef s = None \<longrightarrow> (\<forall>i. PauseTrace i \<notin> set (new_events s (handlePause s)))) \<and>
   handlePause s = s\<lparr>trace := trace (handlePause s)\<rparr>"
proof -
  have ne: "new_events s (handlePause s) =
     [Logger Silly ''Try to pause: ''] @
     (if askId s \<noteq> [] then [AbortCompletion (askId s)] else []) @
     (case topicRef s of None \<Rightarrow> []
      | Some t \<Rightarrow> if topic_id t \<noteq> [] then [PauseTrace (topic_id t)] else [])"
    by (rule new_events_append) (rule handlePause_trace)
  have 1: "askId s = [] \<longrightarrow> filter is_abort (new_events s (handlePause s)) = []"
    by (simp add: ne split: option.splits)
  have 2: "askId s \<noteq> [] \<longrightarrow>
      filter is_abort (new_events s (handlePause s)) = [AbortCompletion (askId s)]"
    by (simp add: ne split: option.splits)
  have 3: "\<forall>t. topicRef s = Some t \<and> topic_id t \<noteq> [] \<longrightarrow>
      PauseTrace (topic_id t) \<in> set (new_events s (handlePause s))"
    by (simp add: ne)
  have 4: "topicRef s = None \<longrightarrow> (\<forall>i. PauseTrace i \<notin> set (new_events s (handlePause s)))"
    by (simp add: ne)
  from 1 2 3 4 handlePause_frame show ?thesis by blast
qed

theorem pause_cancels_only_recorded_request_witness:
  "filter is_abort (new_events example_state (handlePause example_state)) = [] \<and>
   filter is_abort (new_events (setAskId ''req-7'' example_state)
      (handlePause (setAskId ''req-7'' example_state))) = [AbortCompletion ''req-7''] \<and>
   PauseTrace ''topic-1'' \<in> set (new_events example_state (handlePause example_state)) \<and>
   handlePause example_state = example_state\<lparr>trace := trace (handlePause example_state)\<rparr>"
proof -
  have f: "askId (setAskId ''req-7'' example_state) = ''req-7''"
    by (simp add: setAskId_def)
  have g: "topicRef example_state = Some \<lparr>topic_id = ''topic-1'', assistantId = ''default''\<rparr> \<and>
      topic_id \<lparr>topic_id = ''topic-1'', assistantId = ''default''\<rparr> \<noteq> []"
    by (simp add: example_state_fields)
  note T1 = pause_cancels_only_recorded_request [of example_state]
  note T2 = pause_cancels_only_recorded_request [of "setAskId ''req-7'' example_state"]
  have a: "filter is_abort (new_events example_state (handlePause example_state)) = []"
    using T1 by (simp add: example_state_fields)
  have b: "filter is_abort (new_events (setAskId ''req-7'' example_state)
      (handlePause (setAskId ''req-7'' example_state))) = [AbortCompletion ''req-7'']"
    using T2 f by simp
  have c: "PauseTrace ''topic-1'' \<in> set (new_events example_state (handlePause example_state))"
    using T1 g by fastforce
  have d: "handlePause example_state = example_state\<lparr>trace := trace (handlePause example_state)\<rparr>"
    using T1 by blast
  from a b c d show ?thesis by blast
qed

subsection \<open>The persisted preference\<close>

text \<open>
  Claim C9. With the catalog loaded, when the settings table holds a non-empty code that
  the catalog resolves to \<open>UNKNOWN\<close>, \<open>updateTargetLanguage\<close> sets the target language
  (state and mirror) to \<open>UNKNOWN\<close> itself, so not to \<open>LanguagesEnum.zhCN\<close> when the two
  differ; the initial value computed from the interface language falls back to
  \<open>LanguagesEnum.zhCN\<close> in the same situation. (\<open>updateTargetLanguage\<close> is only called by
  \<open>initialize\<close>, after the test that the catalog is loaded.)
\<close>

theorem saved_unknown_language_is_kept:
  "(isLanguagesLoaded env \<and> db_settings s ''translate:target:language'' = Some v \<and> v \<noteq> [] \<and>
    getLanguageByLangcode env v = UNKNOWN env \<longrightarrow>
      targetLanguage (updateTargetLanguage env s) = UNKNOWN env \<and>
      targetLangRef (updateTargetLanguage env s) = UNKNOWN env \<and>
      (UNKNOWN env \<noteq> LanguagesEnum_zhCN env \<longrightarrow>
         targetLanguage (updateTargetLanguage env s) \<noteq> LanguagesEnum_zhCN env \<and>
         targetLangRef (updateTargetLanguage env s) \<noteq> LanguagesEnum_zhCN env)) \<and>
   (getLanguageByLangcode env (language env) = UNKNOWN env \<longrightarrow>
      targetLanguage (initialController env db) = LanguagesEnum_zhCN env \<and>
      targetLangRef (initialController env db) = LanguagesEnum_zhCN env)"
proof (intro conjI impI)
  assume h: "isLanguagesLoaded env \<and> db_settings s ''translate:target:language'' = Some v \<and>
    v \<noteq> [] \<and> getLanguageByLangcode env v = UNKNOWN env"
  then have u: "updateTargetLanguage env s =
     s\<lparr>targetLanguage := getLanguageByLangcode env v,
       targetLangRef := getLanguageByLangcode env v,
       trace := trace s @ [DbSettingsGet ''translate:target:language'']\<rparr>"
    by (simp add: updateTargetLanguage_saved)
  show a: "targetLanguage (updateTargetLanguage env s) = UNKNOWN env"
    using h by (simp add: u)
  show b: "targetLangRef (updateTargetLanguage env s) = UNKNOWN env"
    using h by (simp add: u)
  { assume "UNKNOWN env \<noteq> LanguagesEnum_zhCN env"
    then show "targetLanguage (updateTargetLanguage env s) \<noteq> LanguagesEnum_zhCN env"
      and "targetLangRef (updateTargetLanguage env s) \<noteq> LanguagesEnum_zhCN env"
      using a b by simp_all }
next
  assume "getLanguageByLangcode env (language env) = UNKNOWN env"
  then show "targetLanguage (initialController env db) = LanguagesEnum_zhCN env"
    and "targetLangRef (initialController env db) = LanguagesEnum_zhCN env"
    by (simp_all add: initialController_def initialTargetLanguage_def)
qed

theorem saved_unknown_language_is_kept_witness:
  "targetLanguage (updateTargetLanguage example_env
      (example_state\<lparr>db_settings := [''translate:target:language'' \<mapsto> ''tlh'']\<rparr>)) = unknown \<and>
   targetLangRef (updateTargetLanguage example_env
      (example_state\<lparr>db_settings := [''translate:target:language'' \<mapsto> ''tlh'']\<rparr>)) = unknown \<and>
   targetLanguage (updateTargetLanguage example_env
      (example_state\<lparr>db_settings := [''translate:target:language'' \<mapsto> ''tlh'']\<rparr>)) \<noteq> chinese \<and>
   targetLanguage (initialController (example_env\<lparr>language := ''tlh''\<rparr>) Map.empty) = chinese"
proof -
  have u: "catalog ''tlh'' = unknown" by (simp add: catalog_def)
  have d: "unknown \<noteq> chinese" by (simp add: unknown_def chinese_def)
  show ?thesis
    using saved_unknown_language_is_kept
      [of example_env "example_state\<lparr>db_settings := [''translate:target:language'' \<mapsto> ''tlh'']\<rparr>"
          "''tlh''" Map.empty]
      saved_unknown_language_is_kept
      [of "example_env\<lparr>language := ''tlh''\<rparr>" example_state "''tlh''" Map.empty] u d
    by (simp add: example_env_fields)
qed

subsection \<open>The error message\<close>

text \<open>
  Claim C10. Of all operations only the callback \<open>onError\<close> writes the stored error
  message, and the renders that follow an operation leave it as it is. After an error,
  \<open>handleRegenerate\<close> clears the copyable text and keeps the message, a later \<open>onFinish\<close>
  keeps it too, and a non-empty message is still shown.
\<close>

theorem error_message_persists:
  "error (exec env r op s) = (case op of OnError m \<Rightarrow> m | _ \<Rightarrow> error s) \<and>
   error (dispatch n env op s) = (case op of OnError m \<Rightarrow> m | _ \<Rightarrow> error s) \<and>
   error (handleRegenerate env r (onError m s)) = m \<and>
   contentToCopy (handleRegenerate env r (onError m s)) = [] \<and>
   error (onFinish c (handleRegenerate env r (onError m s))) = m \<and>
   (m \<noteq> [] \<longrightarrow> errorShown (onFinish c (handleRegenerate env r (onError m s))))"
proof -
  have 1: "error (handleRegenerate env r (onError m s)) = m"
    by (simp add: error_handleRegenerate onError_def)
  have 2: "contentToCopy (handleRegenerate env r (onError m s)) = []"
    by (simp add: handleRegenerate_def fetchResult_frame)
  have 3: "error (onFinish c (handleRegenerate env r (onError m s))) = m"
    using 1 by (simp add: onFinish_def)
  show ?thesis
    using 1 2 3 by (simp add: error_exec dispatch_def error_settle errorShown_def)
qed

theorem error_message_persists_witness:
  "error (dispatch 3 example_env Regenerate (dispatch 3 example_env (OnError ''boom'') example_state))
     = ''boom'' \<and>
   errorShown (onFinish ''Hallo''
     (handleRegenerate example_env example_state (onError ''boom'' example_state)))"
proof -
  have a: "error (dispatch 3 example_env (OnError ''boom'') example_state) = ''boom''"
    using error_message_persists [of example_env example_state "OnError ''boom''" example_state 3]
    by simp
  have b: "error (dispatch 3 example_env Regenerate (dispatch 3 example_env (OnError ''boom'') example_state))
     = error (dispatch 3 example_env (OnError ''boom'') example_state)"
    using error_message_persists [of example_env example_state Regenerate
        "dispatch 3 example_env (OnError ''boom'') example_state" 3]
    by simp
  have c: "errorShown (onFinish ''Hallo''
     (handleRegenerate example_env example_state (onError ''boom'' example_state)))"
    using error_message_persists [of example_env example_state Regenerate example_state 3 "''boom''" "''Hallo''"]
    by simp
  from a b c show ?thesis by simp
qed

subsection \<open>Initialisation\<close>



text \<open>
  Claim C3. Initialisation is meant to run once: a call made once the controller is marked
  initialised constructs nothing, so that at most one assistant and one topic are
  constructed by \<open>initialize\<close> during the life of the component. The guard reads the flag
  of the closure and the flag is set only after the suspension, so the code keeps this for a
  call that starts after the flag was rendered, and not for two calls that overlap. Here a
  first call is suspended at the read of the settings table, the selected text changes and
  the effect makes a second call, whose closure still holds the flag unset. The first
  continuation marks the controller initialised; the second one then constructs a second
  assistant and a second topic and overwrites the ref of the assistant. When the first call
  resumes before the second starts, the second only writes the log line of the guard and
  one topic is constructed.
\<close>

theorem overlapping_initialize_constructs_twice:
  "initialized (fst (initialize_schedule [Call example_env, Call changed_selection_env, Resume]
      (initialController example_env Map.empty, []))) \<and>
   filter is_topic_construction (new_events (initialController example_env Map.empty)
      (fst (initialize_schedule [Call example_env, Call changed_selection_env, Resume]
         (initialController example_env Map.empty, []))))
     = [GetDefaultTopic ''default''] \<and>
   filter is_topic_construction (new_events (initialController example_env Map.empty)
      (fst (initialize_schedule [Call example_env, Call changed_selection_env, Resume, Resume]
         (initialController example_env Map.empty, []))))
     = [GetDefaultTopic ''default'', GetDefaultTopic ''default''] \<and>
   filter is_assistant_construction (new_events (initialController example_env Map.empty)
      (fst (initialize_schedule [Call example_env, Call changed_selection_env, Resume, Resume]
         (initialController example_env Map.empty, []))))
     = [GetDefaultTranslateAssistant english ''hello'',
        GetDefaultTranslateAssistant english ''world''] \<and>
   assistantRef (fst (initialize_schedule [Call example_env, Call changed_selection_env, Resume, Resume]
         (initialController example_env Map.empty, [])))
     = Some \<lparr>assistant_id = ''default'', content = ''English: world''\<rparr> \<and>
   filter is_topic_construction (new_events (initialController example_env Map.empty)
      (fst (initialize_schedule [Call example_env, Resume, Call changed_selection_env, Resume]
         (initialController example_env Map.empty, []))))
     = [GetDefaultTopic ''default'']"
  by (simp add: new_events_def initialController_def initialTargetLanguage_def
      example_env_def changed_selection_env_def catalog_def english_def unknown_def
      initialize_start_def initialize_resume_def updateTargetLanguage_start_def
      updateTargetLanguage_resume_def emit_def Let_def)

subsection \<open>Changing the language\<close>

text \<open>
  Claim C2, as amended. \<open>handleChangeLanguage\<close> followed by the renders it causes is a
  no-op when the controller is not initialised. Otherwise it sets the target language in the
  state and in the mirror, stores the code in the settings table, and leaves the topic ref
  as it is. When moreover the new language differs from the current one and the selected
  text is not empty (the refs being set, as they are in every reachable initialised state),
  the render that follows issues exactly one fetch: one assistant built from the new
  language, submitted over the topic of the ref. When the new language is the current one,
  or the selected text is the empty string, the only call made is the write to the
  settings table and no fetch follows.
\<close>

theorem changeLanguage_fetches_once:
  "(\<not> initialized s \<longrightarrow> dispatch n env (ChangeLanguage l) s = s) \<and>
   (initialized s \<longrightarrow>
      targetLanguage (dispatch n env (ChangeLanguage l) s) = l \<and>
      targetLangRef (dispatch n env (ChangeLanguage l) s) = l \<and>
      db_settings (dispatch n env (ChangeLanguage l) s) ''translate:target:language''
        = Some (langCode l) \<and>
      topicRef (dispatch n env (ChangeLanguage l) s) = topicRef s) \<and>
   (\<forall>a t tx.
      initialized s \<and> assistantRef s = Some a \<and> topicRef s = Some t \<and>
      selectedText env = Some tx \<and> tx \<noteq> [] \<and> l \<noteq> targetLanguage s \<longrightarrow>
        new_events s (dispatch (Suc n) env (ChangeLanguage l) s) =
          [DbSettingsPut ''translate:target:language'' (langCode l),
           GetDefaultTranslateAssistant l tx,
           Logger Debug ''process once'',
           ProcessMessages (getDefaultTranslateAssistant env l tx) t
             (content (getDefaultTranslateAssistant env l tx))]) \<and>
   (initialized s \<and> (l = targetLanguage s \<or> selectedText env = Some []) \<longrightarrow>
        new_events s (dispatch n env (ChangeLanguage l) s) =
          [DbSettingsPut ''translate:target:language'' (langCode l)])"
proof -
  let ?s1 = "handleChangeLanguage s l s"
  have s1: "initialized s \<Longrightarrow> ?s1 = s\<lparr>targetLanguage := l, targetLangRef := l,
         db_settings := (db_settings s)(''translate:target:language'' \<mapsto> langCode l),
         trace := trace s @ [DbSettingsPut ''translate:target:language'' (langCode l)]\<rparr>"
    by (rule handleChangeLanguage_initialized)
  have d: "initialized s \<Longrightarrow>
      dispatch n env (ChangeLanguage l) s = ?s1 \<or>
      dispatch n env (ChangeLanguage l) s = fetchResult env ?s1 ?s1"
  proof (cases "l = targetLanguage s")
    case True
    assume "initialized s"
    then show ?thesis using True by (simp add: changeLanguage_same)
  next
    case False
    assume i: "initialized s"
    show ?thesis
    proof (cases n)
      case 0
      then show ?thesis by (simp add: dispatch_def)
    next
      case (Suc k)
      then show ?thesis using i False by (simp add: changeLanguage_render)
    qed
  qed
  have 1: "\<not> initialized s \<longrightarrow> dispatch n env (ChangeLanguage l) s = s"
    by (simp add: dispatch_def handleChangeLanguage_def settle_stable needs_render_def)
  have 2: "initialized s \<longrightarrow>
      targetLanguage (dispatch n env (ChangeLanguage l) s) = l \<and>
      targetLangRef (dispatch n env (ChangeLanguage l) s) = l \<and>
      db_settings (dispatch n env (ChangeLanguage l) s) ''translate:target:language''
        = Some (langCode l) \<and>
      topicRef (dispatch n env (ChangeLanguage l) s) = topicRef s"
  proof
    assume i: "initialized s"
    from d [OF i] show "targetLanguage (dispatch n env (ChangeLanguage l) s) = l \<and>
      targetLangRef (dispatch n env (ChangeLanguage l) s) = l \<and>
      db_settings (dispatch n env (ChangeLanguage l) s) ''translate:target:language''
        = Some (langCode l) \<and>
      topicRef (dispatch n env (ChangeLanguage l) s) = topicRef s"
      using s1 [OF i] by (auto simp: fetchResult_frame fetchResult_frame_cells)
  qed
  have 3: "\<forall>a t tx.
      initialized s \<and> assistantRef s = Some a \<and> topicRef s = Some t \<and>
      selectedText env = Some tx \<and> tx \<noteq> [] \<and> l \<noteq> targetLanguage s \<longrightarrow>
        new_events s (dispatch (Suc n) env (ChangeLanguage l) s) =
          [DbSettingsPut ''translate:target:language'' (langCode l),
           GetDefaultTranslateAssistant l tx,
           Logger Debug ''process once'',
           ProcessMessages (getDefaultTranslateAssistant env l tx) t
             (content (getDefaultTranslateAssistant env l tx))]"
  proof (intro allI impI)
    fix a t tx
    assume h: "initialized s \<and> assistantRef s = Some a \<and> topicRef s = Some t \<and>
      selectedText env = Some tx \<and> tx \<noteq> [] \<and> l \<noteq> targetLanguage s"
    then have i: "initialized s" by simp
    have r: "dispatch (Suc n) env (ChangeLanguage l) s = fetchResult env ?s1 ?s1"
      using h by (simp add: changeLanguage_render)
    have p: "initialized ?s1" "assistantRef ?s1 = Some a" "topicRef ?s1 = Some t"
      "targetLanguage ?s1 = l"
      "trace ?s1 = trace s @ [DbSettingsPut ''translate:target:language'' (langCode l)]"
      using h by (simp_all add: s1 [OF i])
    have "trace (fetchResult env ?s1 ?s1) = trace s @
          [DbSettingsPut ''translate:target:language'' (langCode l),
           GetDefaultTranslateAssistant l tx,
           Logger Debug ''process once'',
           ProcessMessages (getDefaultTranslateAssistant env l tx) t
             (content (getDefaultTranslateAssistant env l tx))]"
      using h p by (simp add: fetchResult_submit [of ?s1 ?s1 a t env tx])
    then show "new_events s (dispatch (Suc n) env (ChangeLanguage l) s) =
          [DbSettingsPut ''translate:target:language'' (langCode l),
           GetDefaultTranslateAssistant l tx,
           Logger Debug ''process once'',
           ProcessMessages (getDefaultTranslateAssistant env l tx) t
             (content (getDefaultTranslateAssistant env l tx))]"
      unfolding r by (rule new_events_append)
  qed
  have 4: "initialized s \<and> (l = targetLanguage s \<or> selectedText env = Some []) \<longrightarrow>
        new_events s (dispatch n env (ChangeLanguage l) s) =
          [DbSettingsPut ''translate:target:language'' (langCode l)]"
  proof
    assume h: "initialized s \<and> (l = targetLanguage s \<or> selectedText env = Some [])"
    then have i: "initialized s" by simp
    have t: "trace ?s1 = trace s @ [DbSettingsPut ''translate:target:language'' (langCode l)]"
      by (simp add: s1 [OF i])
    have "dispatch n env (ChangeLanguage l) s = ?s1"
    proof (cases "l = targetLanguage s")
      case True
      then show ?thesis using i by (simp add: changeLanguage_same)
    next
      case False
      then have "selectedText env = Some []" using h by simp
      then have "fetchResult env ?s1 ?s1 = ?s1"
        by (simp add: fetchResult_guard)
      then show ?thesis using d [OF i] by auto
    qed
    then show "new_events s (dispatch n env (ChangeLanguage l) s) =
          [DbSettingsPut ''translate:target:language'' (langCode l)]"
      using t by (simp add: new_events_append)
  qed
  from 1 2 3 4 show ?thesis by blast
qed

theorem changeLanguage_fetches_once_witness:
  "new_events example_state (dispatch 3 example_env (ChangeLanguage japanese) example_state) =
     [DbSettingsPut ''translate:target:language'' ''ja-jp'',
      GetDefaultTranslateAssistant japanese ''hello'',
      Logger Debug ''process once'',
      ProcessMessages \<lparr>assistant_id = ''default'', content = ''Japanese: hello''\<rparr>
        \<lparr>topic_id = ''topic-1'', assistantId = ''default''\<rparr> ''Japanese: hello''] \<and>
   targetLanguage (dispatch 3 example_env (ChangeLanguage japanese) example_state) = japanese \<and>
   targetLangRef (dispatch 3 example_env (ChangeLanguage japanese) example_state) = japanese \<and>
   db_settings (dispatch 3 example_env (ChangeLanguage japanese) example_state)
     ''translate:target:language'' = Some ''ja-jp'' \<and>
   topicRef (dispatch 3 example_env (ChangeLanguage japanese) example_state)
     = Some \<lparr>topic_id = ''topic-1'', assistantId = ''default''\<rparr> \<and>
   dispatch 3 example_env (ChangeLanguage japanese) (initialController example_env Map.empty)
     = initialController example_env Map.empty"
proof -
  note T = changeLanguage_fetches_once [of example_state 3 example_env japanese]
  note T2 = changeLanguage_fetches_once [of example_state 2 example_env japanese]
  note U = changeLanguage_fetches_once [of "initialController example_env Map.empty" 3 example_env japanese]
  have pre: "initialized example_state \<and>
      assistantRef example_state = Some \<lparr>assistant_id = ''default'', content = ''English: hello''\<rparr> \<and>
      topicRef example_state = Some \<lparr>topic_id = ''topic-1'', assistantId = ''default''\<rparr> \<and>
      selectedText example_env = Some ''hello'' \<and> ''hello'' \<noteq> [] \<and>
      japanese \<noteq> targetLanguage example_state"
    by (simp add: example_state_fields example_env_fields japanese_def english_def)
  have "new_events example_state (dispatch (Suc 2) example_env (ChangeLanguage japanese) example_state) =
          [DbSettingsPut ''translate:target:language'' (langCode japanese),
           GetDefaultTranslateAssistant japanese ''hello'',
           Logger Debug ''process once'',
           ProcessMessages (getDefaultTranslateAssistant example_env japanese ''hello'')
             \<lparr>topic_id = ''topic-1'', assistantId = ''default''\<rparr>
             (content (getDefaultTranslateAssistant example_env japanese ''hello''))]"
    using T2 pre by blast
  then have a: "new_events example_state (dispatch 3 example_env (ChangeLanguage japanese) example_state) =
     [DbSettingsPut ''translate:target:language'' ''ja-jp'',
      GetDefaultTranslateAssistant japanese ''hello'',
      Logger Debug ''process once'',
      ProcessMessages \<lparr>assistant_id = ''default'', content = ''Japanese: hello''\<rparr>
        \<lparr>topic_id = ''topic-1'', assistantId = ''default''\<rparr> ''Japanese: hello'']"
    by (simp add: example_env_fields japanese_def numeral_3_eq_3)
  have b: "targetLanguage (dispatch 3 example_env (ChangeLanguage japanese) example_state) = japanese \<and>
   targetLangRef (dispatch 3 example_env (ChangeLanguage japanese) example_state) = japanese \<and>
   db_settings (dispatch 3 example_env (ChangeLanguage japanese) example_state)
     ''translate:target:language'' = Some (langCode japanese) \<and>
   topicRef (dispatch 3 example_env (ChangeLanguage japanese) example_state) = topicRef example_state"
    using T pre by blast
  have c: "dispatch 3 example_env (ChangeLanguage japanese) (initialController example_env Map.empty)
     = initialController example_env Map.empty"
    using U by (simp add: initialController_fields)
  from a b c show ?thesis
    by (simp add: example_state_fields japanese_def)
qed

text \<open>
  Claim C2 as stated fails: after initialisation, choosing the language that is already the
  target changes no state cell, so no render and no fetch follow; and with the empty string
  selected the component initialises but the guard of \<open>fetchResult\<close> rejects the text, so
  choosing another language issues no fetch either.
\<close>

theorem changeLanguage_always_fetches_counterexample:
  "initialized example_state \<and>
   new_events example_state (dispatch 3 example_env (ChangeLanguage english) example_state)
     = [DbSettingsPut ''translate:target:language'' ''en-us''] \<and>
   initialized empty_selection_state \<and>
   japanese \<noteq> targetLanguage empty_selection_state \<and>
   new_events empty_selection_state
       (dispatch 3 empty_selection_env (ChangeLanguage japanese) empty_selection_state)
     = [DbSettingsPut ''translate:target:language'' ''ja-jp'']"
proof -
  have e: "targetLanguage example_state = english" "initialized example_state"
    by (simp_all add: example_state_fields)
  have "dispatch 3 example_env (ChangeLanguage english) example_state
      = handleChangeLanguage example_state english example_state"
    using e by (simp add: changeLanguage_same)
  then have a: "new_events example_state (dispatch 3 example_env (ChangeLanguage english) example_state)
     = [DbSettingsPut ''translate:target:language'' ''en-us'']"
    using e by (simp add: handleChangeLanguage_initialized new_events_def english_def)
  have d: "japanese \<noteq> targetLanguage empty_selection_state"
    by (simp add: empty_selection_state_fields japanese_def english_def)
  let ?s1 = "handleChangeLanguage empty_selection_state japanese empty_selection_state"
  have "dispatch 3 empty_selection_env (ChangeLanguage japanese) empty_selection_state
      = fetchResult empty_selection_env ?s1 ?s1"
    using changeLanguage_render [OF empty_selection_state_fields(1) d,
        where n = 2 and env = empty_selection_env]
    by simp
  moreover have "fetchResult empty_selection_env ?s1 ?s1 = ?s1"
    by (simp add: fetchResult_guard empty_selection_env_def)
  ultimately have "dispatch 3 empty_selection_env (ChangeLanguage japanese) empty_selection_state = ?s1"
    by (simp add: numeral_3_eq_3)
  then have b: "new_events empty_selection_state
       (dispatch 3 empty_selection_env (ChangeLanguage japanese) empty_selection_state)
     = [DbSettingsPut ''translate:target:language'' ''ja-jp'']"
    by (simp add: handleChangeLanguage_initialized empty_selection_state_fields new_events_def
        japanese_def)
  from a b d e(2) empty_selection_state_fields(1) show ?thesis by blast
qed

end
